theory Spec2Isabelle
  imports Main "HOL-Library.Word"
begin

section \<open>The PDU layer of uModbus: umodbus/_functions/__init__.py\<close>

text \<open>
  The module decodes Modbus response PDUs. A PDU is a Python \<open>bytes\<close> value, here a list
  of 8-bit words; Python integers are \<open>int\<close>. Every exception the module can raise is a
  value of \<open>error\<close>, and a call returns \<open>error + 'a\<close> with \<open>Inl\<close> for the raised
  exception. The module is read as Python 3 (\<open>int(byte_count / 2)\<close>, functions called
  through their class).
\<close>

type_synonym byte = "8 word"

subsection \<open>Exceptions\<close>

text \<open>
  Modelled from the spec: the exception classes of \<open>umodbus.exceptions\<close>, a module that
  is imported by the source but is not part of it. The source names only
  \<open>IllegalDataValueError\<close>; the other kinds are the ten the spec lists for the Error
  Mapping Table and its generic "unknown device exception" kind.
\<close>

datatype modbus_error =
    IllegalFunctionError
  | IllegalDataAddressError
  | IllegalDataValueError
  | ServerDeviceFailureError
  | AcknowledgeError
  | ServerDeviceBusyError
  | NegativeAcknowledgeError
  | MemoryParityError
  | GatewayPathUnavailableError
  | GatewayTargetDeviceFailedToRespondError
  | UnknownDeviceException

text \<open>
  What a call can raise: an exception of \<open>umodbus.exceptions\<close>, \<open>struct.error\<close>, the
  \<open>KeyError\<close> of a dictionary subscript, the \<open>TypeError\<close> of a call with the wrong
  number of arguments, the \<open>AttributeError\<close> of an assignment to an attribute the object
  cannot hold, and the bare \<open>Exception\<close> of \<open>request_pdu\<close>.
\<close>

datatype error =
    ModbusError modbus_error
  | StructError
  | KeyError
  | TypeError
  | AttributeError
  | PlainException

text \<open>
  Modelled from the spec: the fixed table of the Error Mapping Table, which lives in
  \<open>umodbus.exceptions\<close> and is not among the sources. The spec gives the standard
  exception codes 1 to 11 with ten kinds, and fixes code 2 as IllegalDataAddress; the ten
  kinds are placed at the codes of the Modbus standard (1 to 8, 10 and 11).
\<close>

definition standard_exception_codes :: "int \<rightharpoonup> modbus_error" where
  "standard_exception_codes =
     [1 \<mapsto> IllegalFunctionError,
      2 \<mapsto> IllegalDataAddressError,
      3 \<mapsto> IllegalDataValueError,
      4 \<mapsto> ServerDeviceFailureError,
      5 \<mapsto> AcknowledgeError,
      6 \<mapsto> ServerDeviceBusyError,
      7 \<mapsto> NegativeAcknowledgeError,
      8 \<mapsto> MemoryParityError,
      10 \<mapsto> GatewayPathUnavailableError,
      11 \<mapsto> GatewayTargetDeviceFailedToRespondError]"

text \<open>
  Modelled from the spec: the mapping \<open>error_code_to_exception_map\<close> of
  \<open>umodbus.exceptions\<close>, which is not among the sources. Its lookup is the spec's
  \<open>lookup(exception_code)\<close>: a code of the fixed table gives its kind, and an unknown
  code maps to the generic "unknown device exception" kind rather than failing the
  lookup itself. A subscript of this mapping therefore always gives a value. The
  dispatcher below takes the mapping as a parameter, and this constant is used where
  the mapping of the repository is meant.
\<close>

definition error_code_to_exception_map :: "int \<rightharpoonup> modbus_error" where
  "error_code_to_exception_map code =
     (case standard_exception_codes code of
        Some kind \<Rightarrow> Some kind
      | None \<Rightarrow> Some UnknownDeviceException)"

subsection \<open>Function codes\<close>

definition READ_COILS :: int where "READ_COILS = 1"
definition READ_DISCRETE_INPUTS :: int where "READ_DISCRETE_INPUTS = 2"
definition READ_HOLDING_REGISTERS :: int where "READ_HOLDING_REGISTERS = 3"
definition READ_INPUT_REGISTERS :: int where "READ_INPUT_REGISTERS = 4"

subsection \<open>The struct module, for the formats the source uses\<close>

text \<open>
  \<open>struct.unpack\<close> raises \<open>struct.error\<close> unless the buffer has exactly the size of the
  format. \<open>struct_unpack_B\<close> is \<open>struct.unpack('>B', buf)[0]\<close>, \<open>struct_unpack_BB\<close> is
  \<open>struct.unpack('>BB', buf)\<close>, \<open>struct_unpack_Bs n\<close> is the format \<open>'>' + 'B' * n\<close> and
  \<open>struct_unpack_Hs n\<close> the format \<open>'>' + 'H' * n\<close> (unsigned 16-bit, big-endian).
\<close>

definition struct_unpack_B :: "byte list \<Rightarrow> error + int" where
  "struct_unpack_B buf = (case buf of [b] \<Rightarrow> Inr (uint b) | _ \<Rightarrow> Inl StructError)"

definition struct_unpack_BB :: "byte list \<Rightarrow> error + int \<times> int" where
  "struct_unpack_BB buf =
     (case buf of [a, b] \<Rightarrow> Inr (uint a, uint b) | _ \<Rightarrow> Inl StructError)"

definition struct_unpack_Bs :: "nat \<Rightarrow> byte list \<Rightarrow> error + int list" where
  "struct_unpack_Bs n buf =
     (if length buf = n then Inr (map uint buf) else Inl StructError)"

fun be16s :: "byte list \<Rightarrow> int list" where
  "be16s (hi # lo # rest) = (256 * uint hi + uint lo) # be16s rest"
| "be16s _ = []"

definition struct_unpack_Hs :: "nat \<Rightarrow> byte list \<Rightarrow> error + int list" where
  "struct_unpack_Hs n buf =
     (if length buf = 2 * n then Inr (be16s buf) else Inl StructError)"

text \<open>\<open>struct.pack('>BHH', a, b, c)\<close>: each argument must fit its field.\<close>

definition struct_pack_BHH :: "int \<Rightarrow> int \<Rightarrow> int \<Rightarrow> error + byte list" where
  "struct_pack_BHH a b c =
     (if 0 \<le> a \<and> a \<le> 255 \<and> 0 \<le> b \<and> b \<le> 65535 \<and> 0 \<le> c \<and> c \<le> 65535
      then Inr [word_of_int a,
                word_of_int (b div 256), word_of_int (b mod 256),
                word_of_int (c div 256), word_of_int (c mod 256)]
      else Inl StructError)"

subsection \<open>String formatting of a byte in binary\<close>

text \<open>
  \<open>bin_str v\<close> is \<open>'{0:b}'.format(v)\<close> for \<open>v \<ge> 0\<close>: the binary digits, most significant
  first, \<open>'0'\<close> for zero. \<open>format_0b padding v\<close> is \<open>'{0:0<padding>b}'.format(v)\<close>: the
  same digits, filled with zeros on the left up to the width \<open>padding\<close>. The width is a
  minimum: a value with more digits keeps them all.
\<close>

fun bin_str :: "nat \<Rightarrow> string" where
  "bin_str n =
     (if n < 2 then [if n = 0 then CHR ''0'' else CHR ''1'']
      else bin_str (n div 2) @ [if n mod 2 = 0 then CHR ''0'' else CHR ''1''])"

declare bin_str.simps [simp del]

definition format_0b :: "nat \<Rightarrow> nat \<Rightarrow> string" where
  "format_0b padding v =
     replicate (padding - length (bin_str v)) CHR ''0'' @ bin_str v"

text \<open>Python's \<open>int(c)\<close> on the one-character strings the format produces.\<close>

definition int_of_digit :: "char \<Rightarrow> int" where
  "int_of_digit c = (if c = CHR ''1'' then 1 else 0)"

subsection \<open>ReadCoils\<close>

text \<open>
  An instance of \<open>ReadCoils\<close>: the four attributes the class declares, \<open>None\<close> as in the
  class body. \<open>quantity\<close> is the attribute \<open>_quantity\<close>, read through the property of that name.
\<close>

record ReadCoils =
  byte_count :: "int option"
  data :: "int list option"
  starting_address :: "int option"
  quantity :: "int option"

definition ReadCoils_new :: ReadCoils where
  "ReadCoils_new =
     \<lparr>byte_count = None, data = None, starting_address = None, quantity = None\<rparr>"

text \<open>The property setter: on an exception the object is left as it was.\<close>

definition quantity_setter :: "ReadCoils \<Rightarrow> int \<Rightarrow> error + ReadCoils" where
  "quantity_setter self v =
     (if \<not> (1 \<le> v \<and> v \<le> 2000) then Inl (ModbusError IllegalDataValueError)
      else Inr (self\<lparr>quantity := Some v\<rparr>))"

definition request_pdu :: "ReadCoils \<Rightarrow> error + byte list" where
  "request_pdu self =
     (case (starting_address self, quantity self) of
        (Some a, Some q) \<Rightarrow> struct_pack_BHH READ_COILS a q
      | _ \<Rightarrow> Inl PlainException)"

text \<open>
  The expression at lines 218 and 219: Python's \<open>//\<close> and \<open>%\<close> round down, as \<open>div\<close> and
  \<open>mod\<close> on \<open>int\<close> do.
\<close>

definition padding :: "int \<Rightarrow> nat \<Rightarrow> nat" where
  "padding qty i =
     (if (qty - 8 * int i) div 8 > 0 then 8 else nat (qty mod 8))"

text \<open>
  The loop \<open>for i, value in enumerate(bytes_)\<close>: \<open>i\<close> is the index of the next byte and
  \<open>acc\<close> the list \<open>data\<close> built so far.
\<close>

fun unpack_coils :: "int \<Rightarrow> nat \<Rightarrow> int list \<Rightarrow> int list \<Rightarrow> int list" where
  "unpack_coils qty i [] acc = acc"
| "unpack_coils qty i (v # rest) acc =
     unpack_coils qty (Suc i) rest
       (acc @ rev (map int_of_digit (format_0b (padding qty i) (nat v))))"

definition ReadCoils_create_from_response_pdu ::
    "byte list \<Rightarrow> int \<Rightarrow> error + ReadCoils" where
  "ReadCoils_create_from_response_pdu resp_pdu qty =
     (case quantity_setter ReadCoils_new qty of
        Inl e \<Rightarrow> Inl e
      | Inr read_coils \<Rightarrow>
         (case struct_unpack_B (take 1 (drop 1 resp_pdu)) of
            Inl e \<Rightarrow> Inl e
          | Inr bc \<Rightarrow>
             (case struct_unpack_Bs (nat bc) (drop 2 resp_pdu) of
                Inl e \<Rightarrow> Inl e
              | Inr bytes \<Rightarrow>
                 Inr (read_coils\<lparr>byte_count := Some bc,
                                  data := Some (unpack_coils qty 0 bytes [])\<rparr>))))"

text \<open>
  The statement sequence \<open>read_coils.quantity = q; read_coils.request_pdu\<close> on an
  object: an exception of the setter ends it before \<open>request_pdu\<close> is evaluated.
\<close>

definition set_quantity_then_request_pdu :: "ReadCoils \<Rightarrow> int \<Rightarrow> error + byte list" where
  "set_quantity_then_request_pdu self q =
     (case quantity_setter self q of Inl e \<Rightarrow> Inl e | Inr self' \<Rightarrow> request_pdu self')"

subsection \<open>ReadHoldingRegisters and ReadInputRegisters\<close>

text \<open>
  \<open>ReadHoldingRegisters\<close> declares no attribute besides \<open>function_code\<close>; an instance
  holds what has been assigned to it. \<open>rhr_byte_count\<close> and \<open>rhr_data\<close> are the
  attributes the decoder assigns; \<open>rhr_quantity\<close> is the attribute a caller's
  \<open>obj.quantity = v\<close> creates. \<open>None\<close> is an attribute not yet assigned.
\<close>

record ReadHoldingRegisters =
  rhr_byte_count :: "int option"
  rhr_data :: "int list option"
  rhr_quantity :: "int option"

definition ReadHoldingRegisters_new :: ReadHoldingRegisters where
  "ReadHoldingRegisters_new =
     \<lparr>rhr_byte_count = None, rhr_data = None, rhr_quantity = None\<rparr>"

text \<open>
  The class has no \<open>quantity\<close> property: \<open>obj.quantity = v\<close> is Python's plain
  attribute assignment, which stores any value and raises nothing. It has no
  \<open>request_pdu\<close> either: reading \<open>obj.request_pdu\<close> raises \<open>AttributeError\<close>.
\<close>

definition ReadHoldingRegisters_set_quantity ::
    "ReadHoldingRegisters \<Rightarrow> int \<Rightarrow> error + ReadHoldingRegisters" where
  "ReadHoldingRegisters_set_quantity self v = Inr (self\<lparr>rhr_quantity := Some v\<rparr>)"

definition ReadHoldingRegisters_request_pdu ::
    "ReadHoldingRegisters \<Rightarrow> error + byte list" where
  "ReadHoldingRegisters_request_pdu self = Inl AttributeError"

text \<open>\<open>int(byte_count / 2)\<close> on a byte count between 0 and 255 is \<open>byte_count div 2\<close>.\<close>

definition ReadHoldingRegisters_create_from_response_pdu ::
    "byte list \<Rightarrow> error + ReadHoldingRegisters" where
  "ReadHoldingRegisters_create_from_response_pdu pdu =
     (case struct_unpack_BB (take 2 pdu) of
        Inl e \<Rightarrow> Inl e
      | Inr (_, bc) \<Rightarrow>
         (case struct_unpack_Hs (nat (bc div 2)) (drop 2 pdu) of
            Inl e \<Rightarrow> Inl e
          | Inr regs \<Rightarrow>
             Inr (ReadHoldingRegisters_new\<lparr>rhr_byte_count := Some bc,
                                            rhr_data := Some regs\<rparr>)))"

text \<open>
  \<open>ReadInputRegisters.create_from_response_pdu\<close> binds \<open>read_input_registers\<close> to the
  empty tuple \<open>()\<close> (line 263). The header is unpacked (line 264), and the assignment
  \<open>read_input_registers.byte_count = byte_count\<close> (line 266) raises \<open>AttributeError\<close>:
  a tuple takes no attribute. Lines 268 to 271 are never reached.
\<close>

definition ReadInputRegisters_create_from_response_pdu ::
    "byte list \<Rightarrow> error + ReadHoldingRegisters" where
  "ReadInputRegisters_create_from_response_pdu pdu =
     (case struct_unpack_BB (take 2 pdu) of
        Inl e \<Rightarrow> Inl e
      | Inr (_, bc) \<Rightarrow> Inl AttributeError)"

subsection \<open>The registry and the dispatcher\<close>

datatype function_class = ReadCoilsClass | ReadHoldingRegistersClass | ReadInputRegistersClass

datatype function_object =
    ReadCoilsObject ReadCoils
  | RegistersObject ReadHoldingRegisters

definition function_code_to_function_map :: "int \<rightharpoonup> function_class" where
  "function_code_to_function_map =
     [READ_COILS \<mapsto> ReadCoilsClass,
      READ_HOLDING_REGISTERS \<mapsto> ReadHoldingRegistersClass,
      READ_INPUT_REGISTERS \<mapsto> ReadInputRegistersClass]"

text \<open>
  The call \<open>cls.create_from_response_pdu(resp_pdu, *args)\<close>. \<open>args\<close> is the list of the
  extra arguments the caller gave to the dispatcher (a keyword argument \<open>quantity=q\<close>
  counts as the one argument of \<open>ReadCoils\<close>). Python checks the number of arguments
  before it runs the body: \<open>ReadCoils\<close> takes exactly one, the quantity, and the two
  register classes take none.
\<close>

definition call_create_from_response_pdu ::
    "function_class \<Rightarrow> byte list \<Rightarrow> int list \<Rightarrow> error + function_object" where
  "call_create_from_response_pdu cls resp_pdu args =
     (case cls of
        ReadCoilsClass \<Rightarrow>
          (case args of
             [qty] \<Rightarrow>
               map_sum id ReadCoilsObject (ReadCoils_create_from_response_pdu resp_pdu qty)
           | _ \<Rightarrow> Inl TypeError)
      | ReadHoldingRegistersClass \<Rightarrow>
          (case args of
             [] \<Rightarrow> map_sum id RegistersObject
                     (ReadHoldingRegisters_create_from_response_pdu resp_pdu)
           | _ \<Rightarrow> Inl TypeError)
      | ReadInputRegistersClass \<Rightarrow>
          (case args of
             [] \<Rightarrow> map_sum id RegistersObject
                     (ReadInputRegisters_create_from_response_pdu resp_pdu)
           | _ \<Rightarrow> Inl TypeError))"

text \<open>
  Line 87 reads the dispatch byte from the slice \<open>resp_pdu[1:2]\<close>. The mapping
  \<open>error_code_to_exception_map\<close> is the parameter \<open>emap\<close>: \<open>emap c = Some exc\<close> when
  the subscript \<open>emap[c]\<close> gives \<open>exc\<close>, and \<open>emap c = None\<close> when the mapping has no
  value for \<open>c\<close> and the subscript raises \<open>KeyError\<close>.
\<close>

definition dispatch_byte :: "byte list \<Rightarrow> error + int" where
  "dispatch_byte resp_pdu = struct_unpack_B (take 1 (drop 1 resp_pdu))"

definition create_function_from_response_pdu ::
    "(int \<rightharpoonup> modbus_error) \<Rightarrow> byte list \<Rightarrow> int list \<Rightarrow> error + function_object" where
  "create_function_from_response_pdu emap resp_pdu args =
     (case dispatch_byte resp_pdu of
        Inl e \<Rightarrow> Inl e
      | Inr function_code \<Rightarrow>
         (case function_code_to_function_map function_code of
            None \<Rightarrow>
              (case emap function_code of
                 None \<Rightarrow> Inl KeyError
               | Some exc \<Rightarrow> Inl (ModbusError exc))
          | Some cls \<Rightarrow> call_create_from_response_pdu cls resp_pdu args))"

subsection \<open>The bit order of the spec\<close>

text \<open>
  Following the spec's words for the Bit-Packing Codec, not the source: bit 0 of a byte
  is the first boolean, and the bits follow low-to-high within the byte.
  \<open>low_to_high_bits n v\<close> is the list of the \<open>n\<close> lowest bits of the byte \<open>v\<close> in that
  order, as the integers 1 and 0. The coil decoder of the source is compared with it.
\<close>

definition low_to_high_bits :: "nat \<Rightarrow> byte \<Rightarrow> int list" where
  "low_to_high_bits n v = map (\<lambda>j. if bit v j then 1 else 0) [0..<n]"

section \<open>Properties\<close>

subsection \<open>Helper facts\<close>

lemma dispatch_byte_Cons2: "dispatch_byte (f # c # rest) = Inr (uint c)"
  by (simp add: dispatch_byte_def struct_unpack_B_def)

lemma dispatch_byte_short:
  "length resp_pdu < 2 \<Longrightarrow> dispatch_byte resp_pdu = Inl StructError"
  by (cases resp_pdu) (auto simp: dispatch_byte_def struct_unpack_B_def split: list.splits)

lemma registry_dom: "function_code_to_function_map c = None \<longleftrightarrow> c \<notin> {1, 3, 4}"
  by (simp add: function_code_to_function_map_def READ_COILS_def READ_HOLDING_REGISTERS_def
      READ_INPUT_REGISTERS_def)

lemma unregistered: "c \<notin> {1, 3, 4} \<Longrightarrow> function_code_to_function_map c = None"
  by (simp add: registry_dom)

text \<open>Binary formatting: the digits of a value below \<open>2 ^ p\<close> fit the width \<open>p\<close>.\<close>

lemma length_bin_str_le: "n < 2 ^ p \<Longrightarrow> 0 < p \<Longrightarrow> length (bin_str n) \<le> p"
proof (induction n arbitrary: p rule: bin_str.induct)
  case (1 n)
  show ?case
  proof (cases "n < 2")
    case True
    then show ?thesis using "1.prems" by (subst bin_str.simps) simp
  next
    case False
    then have "2 \<le> p" using "1.prems"
      by (cases p; cases "p - 1") auto
    then obtain p' where p': "p = Suc p'" "0 < p'"
      by (cases p) auto
    have "n div 2 < 2 ^ p'"
      using "1.prems" p' by auto
    then have "length (bin_str (n div 2)) \<le> p'"
      using "1.IH" [OF False] p' by simp
    then show ?thesis using False p' by (subst bin_str.simps) simp
  qed
qed

lemma length_format_0b: "length (format_0b p v) = max p (length (bin_str v))"
  by (simp add: format_0b_def)

lemma length_format_0b_fits: "v < 2 ^ p \<Longrightarrow> 0 < p \<Longrightarrow> length (format_0b p v) = p"
  using length_bin_str_le [of v p] by (simp add: length_format_0b)

text \<open>
  The loop of the coil decoder, started at byte \<open>i\<close> with \<open>min (8 * i) q\<close> values
  collected: when the bytes that remain are exactly those the quantity \<open>q\<close> needs and
  the last one has no bit set above the quantity, the loop ends with \<open>q\<close> values.
\<close>

lemma unpack_coils_length:
  assumes "\<forall>v \<in> set bytes. 0 \<le> v \<and> v < 256"
    and "int i + int (length bytes) = (q + 7) div 8"
    and "int (length acc) = min (8 * int i) q"
    and "q mod 8 \<noteq> 0 \<longrightarrow> bytes \<noteq> [] \<longrightarrow> last bytes < 2 ^ nat (q mod 8)"
  shows "int (length (unpack_coils q i bytes acc)) = q"
  using assms
proof (induction bytes arbitrary: i acc)
  case Nil
  then show ?case by simp
next
  case (Cons v rest)
  have v: "0 \<le> v" "v < 256" using Cons.prems(1) by auto
  have lt: "8 * int i < q" using Cons.prems(2) by (simp; linarith?)
  then have acc: "int (length acc) = 8 * int i" using Cons.prems(3) by simp
  show ?case
  proof (cases "(q - 8 * int i) div 8 > 0")
    case True
    then have pad: "padding q i = 8" by (simp add: padding_def)
    have "nat v < 2 ^ 8" using v by simp
    then have len: "length (format_0b 8 (nat v)) = 8"
      by (rule length_format_0b_fits) simp
    have ge: "8 * int (Suc i) \<le> q" using True by (simp; linarith?)
    show ?thesis
      unfolding unpack_coils.simps pad
    proof (rule Cons.IH)
      show "\<forall>v\<in>set rest. 0 \<le> v \<and> v < 256" using Cons.prems(1) by simp
      show "int (Suc i) + int (length rest) = (q + 7) div 8" using Cons.prems(2) by simp
      show "int (length (acc @ rev (map int_of_digit (format_0b 8 (nat v)))))
              = min (8 * int (Suc i)) q"
        using acc len ge by simp
      show "q mod 8 \<noteq> 0 \<longrightarrow> rest \<noteq> [] \<longrightarrow> last rest < 2 ^ nat (q mod 8)"
        using Cons.prems(4) by auto
    qed
  next
    case False
    then have small: "q - 8 * int i < 8" by (simp; linarith?)
    have m: "q mod 8 = q - 8 * int i" using lt small
      by presburger
    have pad: "padding q i = nat (q mod 8)" using False by (simp add: padding_def)
    have rest: "rest = []"
    proof -
      have "(q + 7) div 8 = int i + 1" using lt small by linarith
      then show ?thesis using Cons.prems(2) by simp
    qed
    have "v < 2 ^ nat (q mod 8)" using Cons.prems(4) rest m lt by simp
    then have "nat v < 2 ^ nat (q mod 8)"
      using v by (simp add: nat_less_iff)
    moreover have "0 < nat (q mod 8)" using m lt by simp
    ultimately have len: "length (format_0b (nat (q mod 8)) (nat v)) = nat (q mod 8)"
      by (rule length_format_0b_fits)
    show ?thesis
      unfolding rest unpack_coils.simps pad using acc len m lt by simp
  qed
qed

text \<open>
  The digits of \<open>bin_str\<close>, read from the right, are the bits of the value from bit 0
  upwards, and there are exactly as many as the value needs.
\<close>

lemma length_bin_str_pos: "0 < length (bin_str n)"
  by (subst bin_str.simps) simp

lemma bin_str_bound: "n < 2 ^ length (bin_str n)"
proof (induction n rule: bin_str.induct)
  case (1 n)
  show ?case
  proof (cases "n < 2")
    case True
    then show ?thesis by (subst bin_str.simps) simp
  next
    case False
    have "n div 2 < 2 ^ length (bin_str (n div 2))" using "1.IH" [OF False] .
    then have "n < 2 * 2 ^ length (bin_str (n div 2))" by linarith
    then show ?thesis using False by (subst bin_str.simps) simp
  qed
qed

lemma bin_str_least: "1 < length (bin_str n) \<Longrightarrow> 2 ^ (length (bin_str n) - 1) \<le> n"
proof (induction n rule: bin_str.induct)
  case (1 n)
  show ?case
  proof (cases "n < 2")
    case True
    then show ?thesis using "1.prems" by (subst (asm) bin_str.simps) simp
  next
    case False
    have len: "length (bin_str n) = Suc (length (bin_str (n div 2)))"
      using False by (subst bin_str.simps) simp
    show ?thesis
    proof (cases "1 < length (bin_str (n div 2))")
      case True
      then have "2 ^ (length (bin_str (n div 2)) - 1) \<le> n div 2"
        using "1.IH" [OF False] by simp
      then have "2 * 2 ^ (length (bin_str (n div 2)) - 1) \<le> n" by linarith
      moreover have "2 * 2 ^ (length (bin_str (n div 2)) - 1) = (2::nat) ^ length (bin_str (n div 2))"
        using True by (cases "length (bin_str (n div 2))") auto
      ultimately show ?thesis using len by simp
    next
      case F2: False
      then have "length (bin_str (n div 2)) = 1"
        using length_bin_str_pos [of "n div 2"] by linarith
      then show ?thesis using len False by simp
    qed
  qed
qed

lemma bin_str_bits:
  "rev (map int_of_digit (bin_str n)) =
     map (\<lambda>j. if bit n j then 1 else 0) [0..<length (bin_str n)]"
proof (induction n rule: bin_str.induct)
  case (1 n)
  show ?case
  proof (cases "n < 2")
    case True
    then have b: "bin_str n = [if n = 0 then CHR ''0'' else CHR ''1'']"
      by (subst bin_str.simps) simp
    from True have "n = 0 \<or> n = 1" by auto
    then show ?thesis
      unfolding b by (auto simp: int_of_digit_def bit_0)
  next
    case False
    let ?l = "length (bin_str (n div 2))"
    have len: "length (bin_str n) = Suc ?l"
      using False by (subst bin_str.simps) simp
    have "rev (map int_of_digit (bin_str n)) =
            (if odd n then 1 else 0) # rev (map int_of_digit (bin_str (n div 2)))"
      using False by (subst bin_str.simps) (auto simp: int_of_digit_def)
    also have "\<dots> = (if bit n 0 then 1 else 0) # map (\<lambda>j. if bit n (Suc j) then 1 else 0) [0..<?l]"
      using "1.IH" [OF False] by (simp add: bit_0 bit_Suc)
    also have "\<dots> = map (\<lambda>j. if bit n j then 1 else 0) [0..<Suc ?l]"
      by (simp only: upt_conv_Cons [of 0 "Suc ?l"] zero_less_Suc if_True list.map
            map_Suc_upt [symmetric] map_map comp_def)
    finally show ?thesis using len by simp
  qed
qed

lemma high_bits_zero: "n < 2 ^ l \<Longrightarrow> l \<le> j \<Longrightarrow> \<not> bit (n::nat) j"
proof -
  assume "n < 2 ^ l" "l \<le> j"
  then have "n < 2 ^ j"
    by (meson less_le_trans one_le_numeral power_increasing)
  then show ?thesis by (simp add: bit_iff_odd)
qed

text \<open>
  One step of the decoder's loop: the reversed digits of the formatted byte are the bits
  of the byte from bit 0 upwards, as many as the format produced.
\<close>

lemma format_0b_bits:
  "rev (map int_of_digit (format_0b p n)) =
     map (\<lambda>j. if bit n j then 1 else 0) [0..<length (format_0b p n)]"
proof -
  let ?l = "length (bin_str n)"
  let ?k = "p - ?l"
  have "map (\<lambda>j. if bit n j then 1 else (0::int)) [?l..<?l + ?k] = replicate ?k 0"
    using high_bits_zero [OF bin_str_bound [of n]]
    by (intro replicate_eqI) auto
  then have "map (\<lambda>j. if bit n j then 1 else (0::int)) [0..<?l + ?k] =
        map (\<lambda>j. if bit n j then 1 else 0) [0..<?l] @ replicate ?k 0"
    by (simp only: upt_add_eq_append [OF le0] map_append add_0)
  moreover have "rev (map int_of_digit (format_0b p n)) =
        rev (map int_of_digit (bin_str n)) @ replicate ?k 0"
    by (simp add: format_0b_def int_of_digit_def)
  moreover have "length (format_0b p n) = ?l + ?k"
    by (simp add: format_0b_def)
  ultimately show ?thesis by (simp add: bin_str_bits)
qed

lemma coil_byte_bits:
  "rev (map int_of_digit (format_0b p (nat (uint v)))) =
     low_to_high_bits (length (format_0b p (nat (uint v)))) v"
proof -
  have "bit (nat (uint v)) j \<longleftrightarrow> bit v j" for j
    by (simp add: bit_unsigned_iff)
  then show ?thesis
    by (simp add: format_0b_bits low_to_high_bits_def)
qed

text \<open>
  The number of digits the format produces for the width \<open>p\<close>: the least number that
  is at least \<open>p\<close>, at least 1, and enough for the value.
\<close>

lemma format_0b_width:
  "max 1 p \<le> length (format_0b p n)
   \<and> n < 2 ^ length (format_0b p n)
   \<and> (length (format_0b p n) = max 1 p \<or> 2 ^ (length (format_0b p n) - 1) \<le> n)"
proof -
  define w where "w = length (format_0b p n)"
  let ?l = "length (bin_str n)"
  have w: "w = max p ?l" by (simp add: w_def format_0b_def)
  have pos: "0 < ?l" by (rule length_bin_str_pos)
  have "n < 2 ^ ?l" by (rule bin_str_bound)
  also have "(2::nat) ^ ?l \<le> 2 ^ max p ?l" by (rule power_increasing) simp_all
  finally have b: "n < 2 ^ w" using w by simp
  have c: "w = max 1 p \<or> 2 ^ (w - 1) \<le> n"
  proof (cases "?l \<le> max 1 p")
    case True
    moreover have "1 \<le> ?l" using pos by linarith
    ultimately have "w = max 1 p" using w by linarith
    then show ?thesis by simp
  next
    case False
    then have "1 < ?l" "w = ?l" using w by auto
    then show ?thesis using bin_str_least [of n] by simp
  qed
  have a: "max 1 p \<le> w" using w pos by linarith
  show ?thesis using a b c unfolding w_def by blast
qed

text \<open>
  The whole loop: each byte, in order, adds its bits from bit 0 upwards.
\<close>

lemma unpack_coils_bits:
  "\<exists>ws. length ws = length vs
      \<and> unpack_coils q i (map uint vs) acc = acc @ concat (map2 low_to_high_bits ws vs)
      \<and> (\<forall>k<length vs.
            max 1 (padding q (i + k)) \<le> ws ! k \<and> unat (vs ! k) < 2 ^ (ws ! k)
          \<and> (ws ! k = max 1 (padding q (i + k)) \<or> 2 ^ (ws ! k - 1) \<le> unat (vs ! k)))"
proof (induction vs arbitrary: i acc)
  case Nil
  show ?case by simp
next
  case (Cons v rest)
  define w where "w = length (format_0b (padding q i) (unat v))"
  have step: "unpack_coils q i (map uint (v # rest)) acc =
      unpack_coils q (Suc i) (map uint rest) (acc @ low_to_high_bits w v)"
    using coil_byte_bits [of "padding q i" v] by (simp add: w_def)
  have width: "max 1 (padding q i) \<le> w \<and> unat v < 2 ^ w
      \<and> (w = max 1 (padding q i) \<or> 2 ^ (w - 1) \<le> unat v)"
    unfolding w_def by (rule format_0b_width)
  obtain ws where ws: "length ws = length rest"
    "unpack_coils q (Suc i) (map uint rest) (acc @ low_to_high_bits w v) =
       (acc @ low_to_high_bits w v) @ concat (map2 low_to_high_bits ws rest)"
    "\<forall>k<length rest.
        max 1 (padding q (Suc i + k)) \<le> ws ! k \<and> unat (rest ! k) < 2 ^ (ws ! k)
      \<and> (ws ! k = max 1 (padding q (Suc i + k)) \<or> 2 ^ (ws ! k - 1) \<le> unat (rest ! k))"
    using Cons.IH [of "Suc i" "acc @ low_to_high_bits w v"] by blast
  show ?case
  proof (intro exI [of _ "w # ws"] conjI allI impI)
    show "length (w # ws) = length (v # rest)" using ws(1) by simp
    show "unpack_coils q i (map uint (v # rest)) acc =
        acc @ concat (map2 low_to_high_bits (w # ws) (v # rest))"
      using step ws(2) by simp
  next
    fix k assume k: "k < length (v # rest)"
    show "max 1 (padding q (i + k)) \<le> (w # ws) ! k"
      using k width ws(3) by (cases k) auto
    show "unat ((v # rest) ! k) < 2 ^ ((w # ws) ! k)"
      using k width ws(3) by (cases k) auto
    show "(w # ws) ! k = max 1 (padding q (i + k))
        \<or> 2 ^ ((w # ws) ! k - 1) \<le> unat ((v # rest) ! k)"
      using k width ws(3) by (cases k) auto
  qed
qed

text \<open>
  The decoder of Read Holding Registers fails with \<open>struct.error\<close> exactly when the
  payload does not hold \<open>byte_count div 2\<close> registers.
\<close>

lemma rhr_StructError_iff:
  "ReadHoldingRegisters_create_from_response_pdu (f # bc # payload) = Inl StructError
     \<longleftrightarrow> int (length payload) \<noteq> 2 * (uint bc div 2)"
proof -
  have "0 \<le> uint bc div 2" by simp
  then have "int (2 * nat (uint bc div 2)) = 2 * (uint bc div 2)"
    by (simp only: of_nat_mult of_nat_numeral int_nat_eq if_True)
  then have "length payload = 2 * nat (uint bc div 2)
      \<longleftrightarrow> int (length payload) = 2 * (uint bc div 2)"
    by (metis of_nat_eq_iff)
  then show ?thesis
    by (simp add: ReadHoldingRegisters_create_from_response_pdu_def struct_unpack_BB_def
        struct_unpack_Hs_def)
qed

text \<open>
  The dispatcher never looks at the first byte of the PDU: neither line 87 nor any of the
  three decoders reads it.
\<close>

lemma first_byte_ignored:
  "create_function_from_response_pdu emap (f # rest) args
     = create_function_from_response_pdu emap (f' # rest) args"
  by (cases rest)
     (auto simp: create_function_from_response_pdu_def dispatch_byte_def struct_unpack_B_def
       call_create_from_response_pdu_def ReadCoils_create_from_response_pdu_def
       ReadHoldingRegisters_create_from_response_pdu_def
       ReadInputRegisters_create_from_response_pdu_def struct_unpack_BB_def
       split: sum.splits option.splits function_class.splits list.splits)

text \<open>
  The exception response \<open>81 02\<close>: the byte read for dispatch is 2, which has no entry
  in the registry, and the table's entry for 2 is raised.
\<close>

lemma exception_81_02:
  "create_function_from_response_pdu error_code_to_exception_map [0x81, 0x02] args
     = Inl (ModbusError IllegalDataAddressError)"
  by (simp add: create_function_from_response_pdu_def dispatch_byte_Cons2 unregistered
      error_code_to_exception_map_def standard_exception_codes_def)

text \<open>
  More generally, a second byte that is a key of the table and not a registered function
  code makes the dispatcher raise the table's entry, whatever the first byte is.
\<close>

lemma second_byte_raises_table_entry:
  assumes "uint c \<notin> {1, 3, 4}" and "emap (uint c) = Some exc"
  shows "create_function_from_response_pdu emap (f # c # rest) args = Inl (ModbusError exc)"
  using assms
  by (simp add: create_function_from_response_pdu_def dispatch_byte_Cons2 unregistered)

text \<open>
  The lookup of the mapping never fails: every code has a value, and a code outside
  1 to 11 has the generic kind.
\<close>

lemma lookup_total: "error_code_to_exception_map code \<noteq> None"
  by (simp add: error_code_to_exception_map_def split: option.splits)

lemma lookup_unknown_code:
  "code < 1 \<or> 11 < code \<Longrightarrow> error_code_to_exception_map code = Some UnknownDeviceException"
  by (auto simp: error_code_to_exception_map_def standard_exception_codes_def)

text \<open>
  \<open>ReadHoldingRegisters\<close> decodes a response whose byte count is twice the number of
  registers that follow into their big-endian values.
\<close>

lemma ReadHoldingRegisters_decodes_registers:
  assumes "uint bc = 2 * int n" and "length regs = 2 * n"
  shows "ReadHoldingRegisters_create_from_response_pdu (f # bc # regs) =
     Inr \<lparr>rhr_byte_count = Some (uint bc), rhr_data = Some (be16s regs), rhr_quantity = None\<rparr>"
  using assms
  by (simp add: ReadHoldingRegisters_create_from_response_pdu_def struct_unpack_BB_def
      struct_unpack_Hs_def ReadHoldingRegisters_new_def)

text \<open>\<open>ReadInputRegisters\<close> fails on every PDU.\<close>

lemma ReadInputRegisters_always_fails:
  "ReadInputRegisters_create_from_response_pdu pdu =
     Inl (if length pdu < 2 then StructError else AttributeError)"
  by (cases pdu; cases "tl pdu")
     (auto simp: ReadInputRegisters_create_from_response_pdu_def struct_unpack_BB_def
       split: list.splits)

text \<open>A request for 3 coils from address 100 is the five bytes \<open>01 00 64 00 03\<close>.\<close>

lemma request_pdu_example:
  "set_quantity_then_request_pdu (ReadCoils_new\<lparr>starting_address := Some 100\<rparr>) 3
     = Inr [1, 0, 100, 0, 3]"
  by code_simp

subsection \<open>The dispatcher\<close>

text \<open>
  C1, on the response \<open>03 02 00 0a\<close> of Read Holding Registers (function code 3, byte
  count 2, one register of value 10): the dispatcher takes the second byte, the byte
  count 2, for the function code, finds no function registered for 2 and raises the
  table's entry for 2, although the decoder of function 3 reads the same bytes as the
  register list [10].
\<close>

theorem dispatcher_reads_second_byte:
  "create_function_from_response_pdu error_code_to_exception_map [3, 2, 0, 10] []
     = Inl (ModbusError IllegalDataAddressError)
   \<and> ReadHoldingRegisters_create_from_response_pdu [3, 2, 0, 10]
     = Inr \<lparr>rhr_byte_count = Some 2, rhr_data = Some [10], rhr_quantity = None\<rparr>"
  by code_simp

text \<open>
  C2, on the exception response \<open>81 01\<close> (function 1 with the high bit set, exception
  code 1) decoded with the quantity 1: the byte 1 is a registered function code, so the
  dispatcher calls the coil decoder, which finds no payload for the byte count 1 and
  raises \<open>struct.error\<close>; no exception of the table is raised.
\<close>

theorem exception_code_1_reaches_coil_decoder:
  "create_function_from_response_pdu error_code_to_exception_map [0x81, 0x01] [1]
     = Inl StructError"
  by code_simp

text \<open>
  C3 (amended): when the byte the dispatcher reads has no function registered, the
  dispatcher raises the exception the table holds for that byte, and \<open>KeyError\<close> when
  the table holds none. There is no error of its own for an unknown function code.
\<close>

theorem unregistered_code_raises_table_entry:
  assumes "dispatch_byte resp_pdu = Inr c" and "function_code_to_function_map c = None"
  shows "create_function_from_response_pdu emap resp_pdu args =
           (case emap c of None \<Rightarrow> Inl KeyError | Some exc \<Rightarrow> Inl (ModbusError exc))"
  using assms by (simp add: create_function_from_response_pdu_def)

text \<open>
  At the PDU \<open>09 06\<close>, with the table's entry for 6, and at \<open>09 0c\<close>, where the
  mapping gives its generic kind for 12.
\<close>

theorem unregistered_code_raises_table_entry_witness:
  "dispatch_byte [9, 6] = Inr 6 \<and> function_code_to_function_map 6 = None
   \<and> create_function_from_response_pdu error_code_to_exception_map [9, 6] []
       = Inl (ModbusError ServerDeviceBusyError)
   \<and> dispatch_byte [9, 12] = Inr 12 \<and> function_code_to_function_map 12 = None
   \<and> create_function_from_response_pdu error_code_to_exception_map [9, 12] []
       = Inl (ModbusError UnknownDeviceException)"
proof -
  have a: "dispatch_byte [9, 6] = Inr 6" by (simp add: dispatch_byte_Cons2)
  have b: "function_code_to_function_map 6 = None" by (simp add: registry_dom)
  have c: "dispatch_byte [9, 12] = Inr 12" by (simp add: dispatch_byte_Cons2)
  have d: "function_code_to_function_map 12 = None" by (simp add: registry_dom)
  show ?thesis
    using a b c d
      unregistered_code_raises_table_entry [OF a b, of error_code_to_exception_map "[]"]
      unregistered_code_raises_table_entry [OF c d, of error_code_to_exception_map "[]"]
    by (simp add: error_code_to_exception_map_def standard_exception_codes_def)
qed

text \<open>
  The response \<open>02 02 ff 01\<close> of Read Discrete Inputs, a function that is not
  registered, and the PDU \<open>09 02\<close> with the function code 9: on both the dispatcher
  fails with the device exception of code 2. In the first PDU the first and the second
  byte are the same, so the result does not depend on which of them is read.
\<close>

theorem unregistered_code_device_exception:
  "create_function_from_response_pdu error_code_to_exception_map [2, 2, 0xFF, 0x01] []
     = Inl (ModbusError IllegalDataAddressError)
   \<and> create_function_from_response_pdu error_code_to_exception_map [9, 2] []
     = Inl (ModbusError IllegalDataAddressError)"
  by code_simp

text \<open>
  C4: for every exception code outside 1 to 11, the lookup in the mapping does not fail
  but gives the generic "unknown device exception" kind, and the dispatcher, which
  subscripts the mapping with the second byte of the response at line 90, raises that
  kind. The mapping is the one modelled from the spec; no code outside 1 to 11 is a
  registered function code.
\<close>

theorem unknown_exception_code_generic_kind:
  assumes "uint c < 1 \<or> 11 < uint c"
  shows "error_code_to_exception_map (uint c) = Some UnknownDeviceException
       \<and> create_function_from_response_pdu error_code_to_exception_map (f # c # rest) args
           = Inl (ModbusError UnknownDeviceException)"
proof -
  have lookup: "error_code_to_exception_map (uint c) = Some UnknownDeviceException"
    using assms
    by (auto simp: error_code_to_exception_map_def standard_exception_codes_def)
  have "uint c \<notin> {1, 3, 4}"
    using assms by auto
  then have "function_code_to_function_map (uint c) = None"
    by (rule unregistered)
  then show ?thesis
    using lookup
    by (simp add: create_function_from_response_pdu_def dispatch_byte_Cons2)
qed

text \<open>At the exception response \<open>81 0c\<close>, with the exception code 12.\<close>

theorem unknown_exception_code_generic_kind_witness:
  "(uint (12 :: byte) < 1 \<or> 11 < uint (12 :: byte))
   \<and> error_code_to_exception_map (uint (12 :: byte)) = Some UnknownDeviceException
   \<and> create_function_from_response_pdu error_code_to_exception_map [0x81, 12] []
       = Inl (ModbusError UnknownDeviceException)"
  using unknown_exception_code_generic_kind [of 12 "0x81" "[]" "[]"] by simp

subsection \<open>Read Coils\<close>

text \<open>
  C5 (amended): a Read Coils response decoded with a quantity \<open>q\<close> between 1 and 2000,
  whose byte count is the number of payload bytes, whose payload has
  \<open>ceil(q / 8)\<close> bytes and whose last byte has no bit set above the quantity, decodes to
  exactly \<open>q\<close> values.
\<close>

theorem read_coils_length_is_quantity:
  assumes "1 \<le> q" and "q \<le> 2000"
    and "uint bc = int (length payload)"
    and "int (length payload) = (q + 7) div 8"
    and "q mod 8 \<noteq> 0 \<longrightarrow> uint (last payload) < 2 ^ nat (q mod 8)"
  shows "\<exists>rc d. ReadCoils_create_from_response_pdu (f # bc # payload) q = Inr rc
            \<and> data rc = Some d \<and> int (length d) = q"
proof -
  let ?bytes = "map uint payload"
  have ne: "payload \<noteq> []" using assms(1,4) by auto
  have "int (length (unpack_coils q 0 ?bytes [])) = q"
  proof (rule unpack_coils_length)
    show "\<forall>v\<in>set ?bytes. 0 \<le> v \<and> v < 256"
      using uint_lt2p [where 'a = 8] by auto
    show "int 0 + int (length ?bytes) = (q + 7) div 8" using assms(4) by simp
    show "int (length ([] :: int list)) = min (8 * int 0) q" using assms(1) by simp
    show "q mod 8 \<noteq> 0 \<longrightarrow> ?bytes \<noteq> [] \<longrightarrow> last ?bytes < 2 ^ nat (q mod 8)"
      using assms(5) ne by (simp add: last_map)
  qed
  moreover have "length payload = nat (uint bc)" using assms(3) by simp
  ultimately show ?thesis
    using assms(1,2)
    by (simp add: ReadCoils_create_from_response_pdu_def quantity_setter_def struct_unpack_B_def
        struct_unpack_Bs_def)
qed

text \<open>At the response \<open>01 02 a5 05\<close> for 11 coils.\<close>

theorem read_coils_length_is_quantity_witness:
  "(1::int) \<le> 11 \<and> (11::int) \<le> 2000
   \<and> uint (2 :: byte) = int (length [0xA5, 0x05 :: byte])
   \<and> int (length [0xA5, 0x05 :: byte]) = (11 + 7) div 8
   \<and> (11::int) mod 8 \<noteq> 0
   \<and> uint (last [0xA5, 0x05 :: byte]) < 2 ^ nat (11 mod 8)
   \<and> (\<exists>rc d. ReadCoils_create_from_response_pdu [1, 2, 0xA5, 0x05] 11 = Inr rc
            \<and> data rc = Some d \<and> int (length d) = 11)"
  using read_coils_length_is_quantity [of 11 2 "[0xA5, 0x05]" 1] by simp

text \<open>
  The response \<open>01 01 ff\<close> decoded with the quantity 1: the seven bits above the
  quantity are set, and all eight bits are returned.
\<close>

theorem read_coils_pad_bits_returned:
  "ReadCoils_create_from_response_pdu [1, 1, 0xFF] 1 =
     Inr \<lparr>byte_count = Some 1, data = Some [1, 1, 1, 1, 1, 1, 1, 1],
          starting_address = None, quantity = Some 1\<rparr>"
  by code_simp

text \<open>
  C6: bit-unpacking decodes low-to-high within each byte. For every quantity \<open>q\<close>
  between 1 and 2000 and every payload whose length is the byte count, the decoded list
  is the concatenation, byte after byte, of the lowest bits of each byte from bit 0
  upwards (\<open>low_to_high_bits\<close>). The number \<open>ws ! i\<close> of bits taken from byte \<open>i\<close> is
  the least number that is at least the width \<open>padding q i\<close>, at least 1, and enough to
  hold every set bit of the byte. In particular, the payload byte \<open>0x03\<close> decoded with
  the quantity 3 is [1, 1, 0], and with the quantity 2 it is [1, 1]. The decoder returns
  the Python integers 1 and 0, which Python takes as equal to \<open>True\<close> and \<open>False\<close>.
\<close>

theorem read_coils_low_bit_first:
  assumes "1 \<le> q" and "q \<le> 2000" and "uint bc = int (length payload)"
  shows "(\<exists>rc d ws.
            ReadCoils_create_from_response_pdu (f # bc # payload) q = Inr rc
          \<and> data rc = Some d
          \<and> length ws = length payload
          \<and> d = concat (map2 low_to_high_bits ws payload)
          \<and> (\<forall>i<length payload.
                max 1 (padding q i) \<le> ws ! i \<and> unat (payload ! i) < 2 ^ (ws ! i)
              \<and> (ws ! i = max 1 (padding q i) \<or> 2 ^ (ws ! i - 1) \<le> unat (payload ! i))))
       \<and> ReadCoils_create_from_response_pdu [1, 1, 0x03] 3 =
           Inr \<lparr>byte_count = Some 1, data = Some [1, 1, 0],
                starting_address = None, quantity = Some 3\<rparr>
       \<and> ReadCoils_create_from_response_pdu [1, 1, 0x03] 2 =
           Inr \<lparr>byte_count = Some 1, data = Some [1, 1],
                starting_address = None, quantity = Some 2\<rparr>"
proof (intro conjI)
  obtain ws where ws: "length ws = length payload"
    "unpack_coils q 0 (map uint payload) [] = [] @ concat (map2 low_to_high_bits ws payload)"
    "\<forall>k<length payload.
        max 1 (padding q (0 + k)) \<le> ws ! k \<and> unat (payload ! k) < 2 ^ (ws ! k)
      \<and> (ws ! k = max 1 (padding q (0 + k)) \<or> 2 ^ (ws ! k - 1) \<le> unat (payload ! k))"
    using unpack_coils_bits [of payload q 0 "[]"] by blast
  have len: "length payload = nat (uint bc)" using assms(3) by simp
  have dec: "ReadCoils_create_from_response_pdu (f # bc # payload) q =
      Inr (ReadCoils_new\<lparr>quantity := Some q, byte_count := Some (uint bc),
             data := Some (unpack_coils q 0 (map uint payload) [])\<rparr>)"
    using assms(1,2) len
    by (simp add: ReadCoils_create_from_response_pdu_def quantity_setter_def struct_unpack_B_def
        struct_unpack_Bs_def)
  show "\<exists>rc d ws.
            ReadCoils_create_from_response_pdu (f # bc # payload) q = Inr rc
          \<and> data rc = Some d
          \<and> length ws = length payload
          \<and> d = concat (map2 low_to_high_bits ws payload)
          \<and> (\<forall>i<length payload.
                max 1 (padding q i) \<le> ws ! i \<and> unat (payload ! i) < 2 ^ (ws ! i)
              \<and> (ws ! i = max 1 (padding q i) \<or> 2 ^ (ws ! i - 1) \<le> unat (payload ! i)))"
    unfolding dec using ws by (intro exI [of _ ws] exI conjI) (auto simp: ReadCoils_new_def)
  show "ReadCoils_create_from_response_pdu [1, 1, 0x03] 3 =
           Inr \<lparr>byte_count = Some 1, data = Some [1, 1, 0],
                starting_address = None, quantity = Some 3\<rparr>"
    by code_simp
  show "ReadCoils_create_from_response_pdu [1, 1, 0x03] 2 =
           Inr \<lparr>byte_count = Some 1, data = Some [1, 1],
                starting_address = None, quantity = Some 2\<rparr>"
    by code_simp
qed

text \<open>
  At the response \<open>01 02 a5 05\<close> for 11 coils: eight bits of \<open>a5\<close> and three of \<open>05\<close>,
  each from bit 0 upwards.
\<close>

theorem read_coils_low_bit_first_witness:
  "(1::int) \<le> 11 \<and> (11::int) \<le> 2000
   \<and> uint (2 :: byte) = int (length [0xA5, 0x05 :: byte])
   \<and> (\<exists>rc d ws.
            ReadCoils_create_from_response_pdu [1, 2, 0xA5, 0x05] 11 = Inr rc
          \<and> data rc = Some d
          \<and> length ws = length [0xA5, 0x05 :: byte]
          \<and> d = concat (map2 low_to_high_bits ws [0xA5, 0x05])
          \<and> (\<forall>i<length [0xA5, 0x05 :: byte].
                max 1 (padding 11 i) \<le> ws ! i \<and> unat ([0xA5, 0x05 :: byte] ! i) < 2 ^ (ws ! i)
              \<and> (ws ! i = max 1 (padding 11 i)
                  \<or> 2 ^ (ws ! i - 1) \<le> unat ([0xA5, 0x05 :: byte] ! i))))
   \<and> ReadCoils_create_from_response_pdu [1, 2, 0xA5, 0x05] 11 =
        Inr \<lparr>byte_count = Some 2, data = Some [1, 0, 1, 0, 0, 1, 0, 1, 1, 0, 1],
             starting_address = None, quantity = Some 11\<rparr>
   \<and> concat (map2 low_to_high_bits [8, 3] [0xA5, 0x05]) = [1, 0, 1, 0, 0, 1, 0, 1, 1, 0, 1]"
proof -
  have h1: "(1::int) \<le> 11" and h2: "(11::int) \<le> 2000" by simp_all
  have h3: "uint (2 :: byte) = int (length [0xA5, 0x05 :: byte])" by simp
  note g = read_coils_low_bit_first [OF h1 h2 h3, of 1]
  have e: "ReadCoils_create_from_response_pdu [1, 2, 0xA5, 0x05] 11 =
        Inr \<lparr>byte_count = Some 2, data = Some [1, 0, 1, 0, 0, 1, 0, 1, 1, 0, 1],
             starting_address = None, quantity = Some 11\<rparr>"
    by code_simp
  have b: "concat (map2 low_to_high_bits [8, 3] [0xA5, 0x05]) = [1, 0, 1, 0, 0, 1, 0, 1, 1, 0, 1]"
    by code_simp
  show ?thesis
    using h1 h2 h3 g [THEN conjunct1] e b by (intro conjI)
qed

text \<open>
  C7 (amended): for every quantity outside 1 to 2000, assigning it as the quantity of a
  Read Coils request raises \<open>IllegalDataValueError\<close>, and the request PDU is not built:
  no bytes are produced.
\<close>

theorem read_coils_quantity_out_of_range:
  assumes "q < 1 \<or> 2000 < q"
  shows "quantity_setter self q = Inl (ModbusError IllegalDataValueError)
       \<and> set_quantity_then_request_pdu self q = Inl (ModbusError IllegalDataValueError)"
  using assms by (auto simp: quantity_setter_def set_quantity_then_request_pdu_def)

theorem read_coils_quantity_out_of_range_witness:
  "((2001::int) < 1 \<or> 2000 < (2001::int))
   \<and> quantity_setter (ReadCoils_new\<lparr>starting_address := Some 100\<rparr>) 2001
       = Inl (ModbusError IllegalDataValueError)
   \<and> set_quantity_then_request_pdu (ReadCoils_new\<lparr>starting_address := Some 100\<rparr>) 2001
       = Inl (ModbusError IllegalDataValueError)"
  using read_coils_quantity_out_of_range [of 2001 "ReadCoils_new\<lparr>starting_address := Some 100\<rparr>"]
  by simp

text \<open>
  Register-style reads have no check: the quantity 126 is stored on a
  \<open>ReadHoldingRegisters\<close> object without an exception, and the object has no request
  PDU to build.
\<close>

theorem register_quantity_126_accepted:
  "ReadHoldingRegisters_set_quantity ReadHoldingRegisters_new 126 =
     Inr \<lparr>rhr_byte_count = None, rhr_data = None, rhr_quantity = Some 126\<rparr>
   \<and> ReadHoldingRegisters_request_pdu
        \<lparr>rhr_byte_count = None, rhr_data = None, rhr_quantity = Some 126\<rparr> = Inl AttributeError"
  by (simp add: ReadHoldingRegisters_set_quantity_def ReadHoldingRegisters_new_def
      ReadHoldingRegisters_request_pdu_def)

text \<open>
  C10: the coil decoder assigns its quantity through \<open>quantity_setter\<close> first, so for
  every quantity outside 1 to 2000 it raises \<open>IllegalDataValueError\<close> whatever the
  response bytes are.
\<close>

theorem read_coils_decode_checks_quantity_first:
  assumes "q < 1 \<or> 2000 < q"
  shows "quantity_setter ReadCoils_new q = Inl (ModbusError IllegalDataValueError)
       \<and> ReadCoils_create_from_response_pdu resp_pdu q = Inl (ModbusError IllegalDataValueError)"
  using assms by (auto simp: quantity_setter_def ReadCoils_create_from_response_pdu_def)

theorem read_coils_decode_checks_quantity_first_witness:
  "((0::int) < 1 \<or> 2000 < (0::int))
   \<and> quantity_setter ReadCoils_new 0 = Inl (ModbusError IllegalDataValueError)
   \<and> ReadCoils_create_from_response_pdu [1, 1, 0x03] 0 = Inl (ModbusError IllegalDataValueError)
   \<and> ReadCoils_create_from_response_pdu [] 0 = Inl (ModbusError IllegalDataValueError)"
  using read_coils_decode_checks_quantity_first [of 0 "[1, 1, 0x03]"]
    read_coils_decode_checks_quantity_first [of 0 "[]"]
  by simp

subsection \<open>Registers and byte counts\<close>

text \<open>
  C8, on the Read Input Registers response \<open>04 04 00 0a 00 14\<close>: the decoder of
  function 4 raises \<open>AttributeError\<close>, while the decoder of function 3 reads the same
  payload as [10, 20].
\<close>

theorem read_input_registers_AttributeError:
  "ReadInputRegisters_create_from_response_pdu [4, 4, 0x00, 0x0a, 0x00, 0x14]
     = Inl AttributeError
   \<and> ReadHoldingRegisters_create_from_response_pdu [3, 4, 0x00, 0x0a, 0x00, 0x14] =
     Inr \<lparr>rhr_byte_count = Some 4, rhr_data = Some [10, 20], rhr_quantity = None\<rparr>"
  by code_simp

text \<open>
  C9 (amended): when the byte count of a response differs from the number of payload
  bytes, the coil decoder called with a quantity between 1 and 2000 fails with
  \<open>struct.error\<close>, and so does the decoder of Read Holding Registers, except when the
  byte count is odd and the payload is one byte shorter than it.
\<close>

theorem byte_count_mismatch_StructError:
  assumes "uint bc \<noteq> int (length payload)"
  shows "(1 \<le> q \<and> q \<le> 2000 \<longrightarrow>
            ReadCoils_create_from_response_pdu (f # bc # payload) q = Inl StructError)
       \<and> (\<not> (odd (uint bc) \<and> int (length payload) = uint bc - 1) \<longrightarrow>
            ReadHoldingRegisters_create_from_response_pdu (f # bc # payload) = Inl StructError)"
proof (intro conjI impI)
  assume "1 \<le> q \<and> q \<le> 2000"
  moreover have "length payload \<noteq> nat (uint bc)"
    using assms by auto
  ultimately show "ReadCoils_create_from_response_pdu (f # bc # payload) q = Inl StructError"
    by (simp add: ReadCoils_create_from_response_pdu_def quantity_setter_def struct_unpack_B_def
        struct_unpack_Bs_def)
next
  assume excl: "\<not> (odd (uint bc) \<and> int (length payload) = uint bc - 1)"
  have "int (length payload) \<noteq> 2 * (uint bc div 2)"
  proof (cases "even (uint bc)")
    case True
    then have "2 * (uint bc div 2) = uint bc" by simp
    then show ?thesis using assms by simp
  next
    case False
    then have "2 * (uint bc div 2) = uint bc - 1" by presburger
    then show ?thesis using excl False by simp
  qed
  then show "ReadHoldingRegisters_create_from_response_pdu (f # bc # payload) = Inl StructError"
    using rhr_StructError_iff [of f bc payload] by blast
qed

text \<open>
  At the bytes \<open>03 05 00 0a\<close> (odd byte count 5, two payload bytes) and \<open>01 02 03\<close>
  (byte count 2, one payload byte).
\<close>

theorem byte_count_mismatch_StructError_witness:
  "uint (5 :: byte) \<noteq> int (length [0x00, 0x0a :: byte])
   \<and> (1 \<le> (3::int) \<and> (3::int) \<le> 2000)
   \<and> ReadCoils_create_from_response_pdu [3, 5, 0x00, 0x0a] 3 = Inl StructError
   \<and> \<not> (odd (uint (5 :: byte)) \<and> int (length [0x00, 0x0a :: byte]) = uint (5 :: byte) - 1)
   \<and> ReadHoldingRegisters_create_from_response_pdu [3, 5, 0x00, 0x0a] = Inl StructError
   \<and> uint (2 :: byte) \<noteq> int (length [3 :: byte])
   \<and> ReadCoils_create_from_response_pdu [1, 2, 3] 3 = Inl StructError
   \<and> \<not> (odd (uint (2 :: byte)) \<and> int (length [3 :: byte]) = uint (2 :: byte) - 1)
   \<and> ReadHoldingRegisters_create_from_response_pdu [1, 2, 3] = Inl StructError"
  using byte_count_mismatch_StructError [of 5 "[0x00, 0x0a]" 3 3]
    byte_count_mismatch_StructError [of 2 "[3]" 3 1] by simp

text \<open>
  The response \<open>03 03 00 0a\<close> declares three payload bytes and carries two: the decoder
  of Read Holding Registers returns one register and raises nothing.
\<close>

theorem odd_byte_count_accepted:
  "ReadHoldingRegisters_create_from_response_pdu [3, 3, 0, 10] =
     Inr \<lparr>rhr_byte_count = Some 3, rhr_data = Some [10], rhr_quantity = None\<rparr>"
  by code_simp

end
